theory Spec2Isabelle
  imports Complex_Main
begin

section \<open>Scorecard point scaling, intercept rebalancing and rounding\<close>

text \<open>
  A shallow embedding of \<^verbatim>\<open>optbinning/scorecard/scorecard.py\<close>: the validation of the
  scaling configuration (\<^verbatim>\<open>_check_scorecard_scaling\<close>), the scaling of the raw points
  (\<^verbatim>\<open>_compute_scorecard_points\<close>), the intercept-based form
  (\<^verbatim>\<open>_compute_intercept_based\<close>) and the part of \<^verbatim>\<open>Scorecard._fit\<close> that chains
  scaling, intercept rebalancing and rounding.
\<close>

subsection \<open>Numbers\<close>

text \<open>
  A numpy \<^verbatim>\<open>float64\<close> is modelled by its exact real value when it is finite, and by one
  of the three non-finite values otherwise. The arithmetic is exact on finite values (no
  rounding, no overflow) and follows IEEE 754 where an operand is non-finite or a divisor is
  zero: numpy does not raise there (it warns and returns \<^verbatim>\<open>inf\<close> or \<^verbatim>\<open>nan\<close>). The sign
  of a zero is not modelled: a zero divisor is taken as \<^verbatim>\<open>+0.0\<close>.
\<close>

datatype npfloat = Fin real | PInf | NInf | NaN

instantiation npfloat :: "{uminus, plus, minus, times, divide}"
begin

fun uminus_npfloat :: "npfloat \<Rightarrow> npfloat" where
  "uminus_npfloat (Fin x) = Fin (- x)"
| "uminus_npfloat PInf = NInf"
| "uminus_npfloat NInf = PInf"
| "uminus_npfloat NaN = NaN"

fun plus_npfloat :: "npfloat \<Rightarrow> npfloat \<Rightarrow> npfloat" where
  "plus_npfloat (Fin x) (Fin y) = Fin (x + y)"
| "plus_npfloat NaN y = NaN"
| "plus_npfloat x NaN = NaN"
| "plus_npfloat PInf NInf = NaN"
| "plus_npfloat NInf PInf = NaN"
| "plus_npfloat PInf y = PInf"
| "plus_npfloat x PInf = PInf"
| "plus_npfloat NInf y = NInf"
| "plus_npfloat x NInf = NInf"

definition minus_npfloat :: "npfloat \<Rightarrow> npfloat \<Rightarrow> npfloat" where
  "minus_npfloat x y = (x::npfloat) + (- y)"

fun times_npfloat :: "npfloat \<Rightarrow> npfloat \<Rightarrow> npfloat" where
  "times_npfloat (Fin x) (Fin y) = Fin (x * y)"
| "times_npfloat NaN y = NaN"
| "times_npfloat x NaN = NaN"
| "times_npfloat PInf (Fin y) = (if y = 0 then NaN else if 0 < y then PInf else NInf)"
| "times_npfloat NInf (Fin y) = (if y = 0 then NaN else if 0 < y then NInf else PInf)"
| "times_npfloat (Fin x) PInf = (if x = 0 then NaN else if 0 < x then PInf else NInf)"
| "times_npfloat (Fin x) NInf = (if x = 0 then NaN else if 0 < x then NInf else PInf)"
| "times_npfloat PInf PInf = PInf"
| "times_npfloat NInf NInf = PInf"
| "times_npfloat PInf NInf = NInf"
| "times_npfloat NInf PInf = NInf"

fun divide_npfloat :: "npfloat \<Rightarrow> npfloat \<Rightarrow> npfloat" where
  "divide_npfloat (Fin x) (Fin y) =
     (if y = 0 then (if x = 0 then NaN else if 0 < x then PInf else NInf)
      else Fin (x / y))"
| "divide_npfloat NaN y = NaN"
| "divide_npfloat x NaN = NaN"
| "divide_npfloat (Fin x) PInf = Fin 0"
| "divide_npfloat (Fin x) NInf = Fin 0"
| "divide_npfloat PInf (Fin y) = (if 0 \<le> y then PInf else NInf)"
| "divide_npfloat NInf (Fin y) = (if 0 \<le> y then NInf else PInf)"
| "divide_npfloat PInf PInf = NaN"
| "divide_npfloat PInf NInf = NaN"
| "divide_npfloat NInf PInf = NaN"
| "divide_npfloat NInf NInf = NaN"

instance ..

end

instantiation npfloat :: inverse
begin

definition inverse_npfloat :: "npfloat \<Rightarrow> npfloat" where
  "inverse_npfloat x = divide (Fin 1) x"

instance ..

end

fun isfinite :: "npfloat \<Rightarrow> bool" where
  "isfinite (Fin x) = True"
| "isfinite PInf = False"
| "isfinite NInf = False"
| "isfinite NaN = False"

text \<open>\<^verbatim>\<open>np.log\<close> of a Python number: \<^verbatim>\<open>-inf\<close> at zero and \<^verbatim>\<open>nan\<close> below, with a
  warning and no exception.\<close>

definition np_log :: "real \<Rightarrow> npfloat" where
  "np_log x = (if 0 < x then Fin (ln x) else if x = 0 then NInf else NaN)"

text \<open>\<^verbatim>\<open>np.rint\<close>: the nearest integer, a tie going to the even neighbour; non-finite values
  are returned as they are.\<close>

definition rint :: "real \<Rightarrow> int" where
  "rint x = (let f = \<lfloor>x\<rfloor>; d = x - of_int f in
     if d < 1 / 2 then f
     else if 1 / 2 < d then f + 1
     else if even f then f else f + 1)"

fun np_rint :: "npfloat \<Rightarrow> npfloat" where
  "np_rint (Fin x) = Fin (of_int (rint x))"
| "np_rint PInf = PInf"
| "np_rint NInf = NInf"
| "np_rint NaN = NaN"

subsection \<open>Errors\<close>

datatype py_error = ValueError | TypeError | KeyError | UnboundLocalError | ZeroDivisionError

text \<open>Sequencing of computations that may raise: the first exception ends the run.\<close>

definition bind :: "py_error + 'a \<Rightarrow> ('a \<Rightarrow> py_error + 'b) \<Rightarrow> py_error + 'b" where
  "bind m f = (case m of Inl e \<Rightarrow> Inl e | Inr x \<Rightarrow> f x)"

text \<open>A list comprehension whose element expression may raise.\<close>

fun comprehension :: "('a \<Rightarrow> py_error + 'b) \<Rightarrow> 'a list \<Rightarrow> py_error + 'b list" where
  "comprehension f [] = Inr []"
| "comprehension f (x # xs) =
     bind (f x) (\<lambda>y. bind (comprehension f xs) (\<lambda>ys. Inr (y # ys)))"

subsection \<open>Reductions over arrays\<close>

text \<open>\<^verbatim>\<open>np.min\<close> and \<^verbatim>\<open>np.max\<close> raise \<^verbatim>\<open>ValueError\<close> on an empty array and return
  \<^verbatim>\<open>nan\<close> as soon as one element is \<^verbatim>\<open>nan\<close>.\<close>

fun np_minimum :: "npfloat \<Rightarrow> npfloat \<Rightarrow> npfloat" where
  "np_minimum (Fin x) (Fin y) = Fin (min x y)"
| "np_minimum NaN y = NaN"
| "np_minimum x NaN = NaN"
| "np_minimum NInf y = NInf"
| "np_minimum x NInf = NInf"
| "np_minimum PInf y = y"
| "np_minimum x PInf = x"

fun np_maximum :: "npfloat \<Rightarrow> npfloat \<Rightarrow> npfloat" where
  "np_maximum (Fin x) (Fin y) = Fin (max x y)"
| "np_maximum NaN y = NaN"
| "np_maximum x NaN = NaN"
| "np_maximum PInf y = PInf"
| "np_maximum x PInf = PInf"
| "np_maximum NInf y = y"
| "np_maximum x NInf = x"

fun np_min :: "npfloat list \<Rightarrow> py_error + npfloat" where
  "np_min [] = Inl ValueError"
| "np_min (x # xs) = Inr (foldl np_minimum x xs)"

fun np_max :: "npfloat list \<Rightarrow> py_error + npfloat" where
  "np_max [] = Inl ValueError"
| "np_max (x # xs) = Inr (foldl np_maximum x xs)"

definition np_sum :: "npfloat list \<Rightarrow> npfloat" where
  "np_sum xs = foldl (+) (Fin 0) xs"

subsection \<open>Data\<close>

text \<open>
  A value of the parameter dictionary: a Python \<^verbatim>\<open>int\<close> or finite \<^verbatim>\<open>float\<close>, by its
  value, or an object that is not a \<^verbatim>\<open>numbers.Number\<close>. The dictionary is an association
  list with string keys.
\<close>

datatype pyobj = Num real | NotNum

type_synonym dict = "(string \<times> pyobj) list"


definition getitem :: "dict \<Rightarrow> string \<Rightarrow> py_error + pyobj" where
  "getitem d k = (case map_of d k of None \<Rightarrow> Inl KeyError | Some v \<Rightarrow> Inr v)"

text \<open>Arithmetic on a value that is not a number raises \<^verbatim>\<open>TypeError\<close>.\<close>

definition as_number :: "pyobj \<Rightarrow> py_error + real" where
  "as_number v = (case v of Num x \<Rightarrow> Inr x | NotNum \<Rightarrow> Inl TypeError)"

text \<open>
  The model intercept is the estimator's \<^verbatim>\<open>intercept_\<close> (a numpy float) or, when the
  estimator has none, the Python integer 0. The two differ in one place: dividing a Python
  number by a zero count raises \<^verbatim>\<open>ZeroDivisionError\<close>, dividing a numpy float does not.
\<close>

datatype scalar = PyNumber real | NpFloat npfloat

fun to_np :: "scalar \<Rightarrow> npfloat" where
  "to_np (PyNumber x) = Fin x"
| "to_np (NpFloat x) = x"

fun true_divide :: "scalar \<Rightarrow> nat \<Rightarrow> py_error + npfloat" where
  "true_divide (PyNumber x) n =
     (if n = 0 then Inl ZeroDivisionError else Inr (Fin (x / real n)))"
| "true_divide (NpFloat x) n = Inr (x / Fin (real n))"

text \<open>
  A data frame is the list of its rows, of which the columns \<^verbatim>\<open>Variable\<close> and
  \<^verbatim>\<open>Points\<close> are modelled. A binning table is a data frame, and the scorecard is the
  concatenation of the binning tables.
\<close>

record row =
  Variable :: string
  Points :: npfloat

type_synonym dataframe = "row list"

text \<open>\<^verbatim>\<open>df["Points"] = values\<close>: pandas raises \<^verbatim>\<open>ValueError\<close> when the lengths differ.\<close>

definition set_points :: "dataframe \<Rightarrow> npfloat list \<Rightarrow> py_error + dataframe" where
  "set_points df values =
     (if length values = length df
      then Inr (map (\<lambda>(r, p). r\<lparr>Points := p\<rparr>) (zip df values))
      else Inl ValueError)"

subsection \<open>Validation of the scaling configuration\<close>




subsection \<open>Scaling\<close>

text \<open>
  \<^verbatim>\<open>_compute_scorecard_points\<close>. \<^verbatim>\<open>points\<close> is the \<^verbatim>\<open>Points\<close> column of the scorecard
  and the result is the scaled column; \<^verbatim>\<open>n\<close> is the number of binning tables. A method
  other than the two known ones leaves \<^verbatim>\<open>new_points\<close> unbound at the \<^verbatim>\<open>return\<close>.
\<close>

definition compute_scorecard_points ::
  "npfloat list \<Rightarrow> dataframe list \<Rightarrow> string \<Rightarrow> dict \<Rightarrow> scalar \<Rightarrow> bool
     \<Rightarrow> py_error + npfloat list" where
  "compute_scorecard_points points binning_tables method method_data intercept reverse_scorecard =
     (let n = length binning_tables;
          sense = (if reverse_scorecard then - 1 else 1 :: real)
      in
        if method = ''pdo_odds'' then
          bind (getitem method_data ''pdo'') (\<lambda>pdo.
          bind (getitem method_data ''odds'') (\<lambda>odds.
          bind (getitem method_data ''scorecard_points'') (\<lambda>scorecard_points.
          bind (as_number pdo) (\<lambda>pdo.
          bind (as_number odds) (\<lambda>odds.
          bind (as_number scorecard_points) (\<lambda>scorecard_points.
            let factor = Fin pdo / np_log 2;
                offset = Fin scorecard_points - factor * np_log odds
            in
              bind (true_divide intercept n) (\<lambda>intercept_n.
                Inr (map (\<lambda>p. (- (Fin sense * p + intercept_n)) * factor
                                 + offset / Fin (real n)) points))))))))
        else if method = ''min_max'' then
          bind (getitem method_data ''min'') (\<lambda>a.
          bind (getitem method_data ''max'') (\<lambda>b.
          bind (comprehension (\<lambda>bt. np_min (map Points bt)) binning_tables) (\<lambda>mins.
          bind (comprehension (\<lambda>bt. np_max (map Points bt)) binning_tables) (\<lambda>maxs.
            let min_p = np_sum mins;
                max_p = np_sum maxs;
                smin = to_np intercept + min_p;
                smax = to_np intercept + max_p
            in
              bind (as_number a) (\<lambda>a.
              bind (as_number b) (\<lambda>b.
                let slope = Fin (sense * (a - b)) / (smax - smin);
                    shift = (if reverse_scorecard then Fin a - slope * smin
                             else Fin b - slope * smin);
                    base_points = shift + slope * to_np intercept
                in
                  Inr (map (\<lambda>p. base_points / Fin (real n) + slope * p) points)))))))
        else Inl UnboundLocalError)"

subsection \<open>Intercept-based scorecard\<close>

text \<open>\<^verbatim>\<open>Series.unique()\<close>: the distinct values, in order of first appearance.\<close>

fun unique :: "'a list \<Rightarrow> 'a list" where
  "unique [] = []"
| "unique (x # xs) = x # unique (filter (\<lambda>y. y \<noteq> x) xs)"

text \<open>\<^verbatim>\<open>xs[mask]\<close>: the elements at the positions where the mask holds.\<close>

definition boolean_index :: "bool list \<Rightarrow> 'a list \<Rightarrow> 'a list" where
  "boolean_index msk xs = map snd (filter fst (zip msk xs))"

text \<open>
  \<^verbatim>\<open>xs[mask] = values\<close>: the values are written, in order, at the positions where the mask
  holds. In \<^verbatim>\<open>_compute_intercept_based\<close> the values come from \<^verbatim>\<open>xs[mask]\<close> of the same
  mask, so their number is the number of such positions.
\<close>

fun mask_assign :: "bool list \<Rightarrow> 'a list \<Rightarrow> 'a list \<Rightarrow> 'a list" where
  "mask_assign (True # msk) (x # xs) (v # values) = v # mask_assign msk xs values"
| "mask_assign (False # msk) (x # xs) values = x # mask_assign msk xs values"
| "mask_assign msk xs values = xs"

fun intercept_based_loop ::
  "dataframe \<Rightarrow> string list \<Rightarrow> npfloat list \<times> npfloat \<Rightarrow> py_error + (npfloat list \<times> npfloat)" where
  "intercept_based_loop df [] state = Inr state"
| "intercept_based_loop df (variable # rest) (scaled_points, intercept) =
     (let msk = map (\<lambda>r. Variable r = variable) df;
          points = boolean_index msk (map Points df)
      in
        bind (np_min points) (\<lambda>min_point.
          intercept_based_loop df rest
            (mask_assign msk scaled_points (map (\<lambda>p. p - min_point) points),
             intercept + min_point)))"

text \<open>\<^verbatim>\<open>_compute_intercept_based\<close>: the new \<^verbatim>\<open>Points\<close> column and the intercept.\<close>

definition compute_intercept_based :: "dataframe \<Rightarrow> py_error + (npfloat list \<times> npfloat)" where
  "compute_intercept_based df_scorecard =
     intercept_based_loop df_scorecard (unique (map Variable df_scorecard))
       (replicate (length df_scorecard) (Fin 0), Fin 0)"

subsection \<open>The pipeline of \<^verbatim>\<open>Scorecard._fit\<close>\<close>

text \<open>
  The configuration of a \<^verbatim>\<open>Scorecard\<close> that the pipeline reads. The binning tables (with
  their raw points) and the model intercept come from the binning process and the fitted
  estimator. \<^verbatim>\<open>RoundingMIP\<close> is an external optimizer: building its model on the scorecard
  and solving it is a parameter of the pipeline, which returns a status and rounded points
  or raises.
\<close>

record scorecard =
  scaling_method :: "string option"
  scaling_method_params :: dict
  intercept_based :: bool
  reverse_scorecard :: bool
  rounding :: bool

type_synonym rounding_mip = "dataframe \<Rightarrow> py_error + (string \<times> npfloat list)"

text \<open>
  The stage "Apply score points": scaling, then the intercept-based form, which is nested in
  the branch of the scaling. The result is the scorecard and \<^verbatim>\<open>intercept_\<close>, which is 0
  unless the intercept-based form sets it. \<^verbatim>\<open>pd.concat\<close> raises on an empty list.
\<close>

definition apply_score_points ::
  "scorecard \<Rightarrow> dataframe list \<Rightarrow> scalar \<Rightarrow> py_error + (dataframe \<times> npfloat)" where
  "apply_score_points self binning_tables intercept =
     (if binning_tables = [] then Inl ValueError
      else
        let df_scorecard = concat binning_tables in
        case scaling_method self of
          None \<Rightarrow> Inr (df_scorecard, Fin 0)
        | Some method \<Rightarrow>
            bind (compute_scorecard_points (map Points df_scorecard) binning_tables method
                    (scaling_method_params self) intercept (reverse_scorecard self))
              (\<lambda>scaled_points.
            bind (set_points df_scorecard scaled_points) (\<lambda>df_scorecard.
              if intercept_based self then
                bind (compute_intercept_based df_scorecard) (\<lambda>(scaled_points, intercept').
                bind (set_points df_scorecard scaled_points) (\<lambda>df_scorecard.
                  Inr (df_scorecard, intercept')))
              else Inr (df_scorecard, Fin 0))))"

text \<open>
  The stage of the rounding. With a scaling method that is neither \<^verbatim>\<open>"pdo_odds"\<close> nor
  \<^verbatim>\<open>"min_max"\<close> no branch binds \<^verbatim>\<open>round_points\<close>, and the assignment of the column
  raises \<^verbatim>\<open>UnboundLocalError\<close>.
\<close>

definition apply_rounding :: "scorecard \<Rightarrow> rounding_mip \<Rightarrow> dataframe \<Rightarrow> py_error + dataframe" where
  "apply_rounding self round_mip df_scorecard =
     (if rounding self then
        let points = map Points df_scorecard in
        bind (if scaling_method self = Some ''pdo_odds'' then Inr (map np_rint points)
              else if scaling_method self = Some ''min_max'' then
                bind (round_mip df_scorecard) (\<lambda>(status, round_points).
                  if status \<notin> {''OPTIMAL'', ''FEASIBLE''} then Inr (map np_rint points)
                  else Inr round_points)
              else Inl UnboundLocalError)
          (\<lambda>round_points. set_points df_scorecard round_points)
      else Inr df_scorecard)"

definition Scorecard_fit ::
  "scorecard \<Rightarrow> dataframe list \<Rightarrow> scalar \<Rightarrow> rounding_mip \<Rightarrow> py_error + (dataframe \<times> npfloat)" where
  "Scorecard_fit self binning_tables intercept round_mip =
     bind (apply_score_points self binning_tables intercept) (\<lambda>(df_scorecard, intercept').
     bind (apply_rounding self round_mip df_scorecard) (\<lambda>df_scorecard.
       Inr (df_scorecard, intercept')))"

text \<open>
  A stand-in for the optimizer, as a test would supply it: the model is always reported
  infeasible and no points are returned.
\<close>

definition mip_infeasible :: rounding_mip where
  "mip_infeasible df_scorecard = Inr (''INFEASIBLE'', [])"

subsection \<open>Finite tables and total scores\<close>

text \<open>
  The statements below are about scorecards whose points are all finite, and use their real
  values: \<open>value_of\<close> reads a finite float, a table is finite when it has a row and every
  point of it is finite, and \<open>table_min\<close> and \<open>table_max\<close> are the least and the greatest
  point of a finite table. \<open>smin\<close> and \<open>smax\<close> are the values that the variables of these
  names take in \<^verbatim>\<open>_compute_scorecard_points\<close> on finite tables.
\<close>

fun value_of :: "npfloat \<Rightarrow> real" where
  "value_of (Fin x) = x"
| "value_of PInf = 0"
| "value_of NInf = 0"
| "value_of NaN = 0"

definition finite_table :: "dataframe \<Rightarrow> bool" where
  "finite_table bt = (bt \<noteq> [] \<and> list_all (\<lambda>r. isfinite (Points r)) bt)"

definition table_min :: "dataframe \<Rightarrow> real" where
  "table_min bt = Min (set (map (\<lambda>r. value_of (Points r)) bt))"

definition table_max :: "dataframe \<Rightarrow> real" where
  "table_max bt = Max (set (map (\<lambda>r. value_of (Points r)) bt))"

definition smin :: "real \<Rightarrow> dataframe list \<Rightarrow> real" where
  "smin i binning_tables = i + sum_list (map table_min binning_tables)"

definition smax :: "real \<Rightarrow> dataframe list \<Rightarrow> real" where
  "smax i binning_tables = i + sum_list (map table_max binning_tables)"

text \<open>
  The least and the greatest total score that a scorecard can give: an observation falls in
  one bin of each variable, so the least total is the sum over the binning tables of the
  least scaled point of the table, and likewise for the greatest. The scaling acts on each
  point of its column separately, so the scaled points of a variable are the scaling of the
  column of its table.
\<close>

definition min_total_score ::
  "dataframe list \<Rightarrow> string \<Rightarrow> dict \<Rightarrow> scalar \<Rightarrow> bool \<Rightarrow> py_error + npfloat" where
  "min_total_score binning_tables method method_data intercept reverse =
     bind (comprehension
             (\<lambda>bt. bind (compute_scorecard_points (map Points bt) binning_tables method
                            method_data intercept reverse) np_min)
             binning_tables)
       (\<lambda>mins. Inr (np_sum mins))"

definition max_total_score ::
  "dataframe list \<Rightarrow> string \<Rightarrow> dict \<Rightarrow> scalar \<Rightarrow> bool \<Rightarrow> py_error + npfloat" where
  "max_total_score binning_tables method method_data intercept reverse =
     bind (comprehension
             (\<lambda>bt. bind (compute_scorecard_points (map Points bt) binning_tables method
                            method_data intercept reverse) np_max)
             binning_tables)
       (\<lambda>maxs. Inr (np_sum maxs))"

text \<open>The least point among the rows of a variable, for a scorecard with finite points.\<close>

definition variable_min :: "dataframe \<Rightarrow> string \<Rightarrow> real" where
  "variable_min df variable =
     Min (set (map (\<lambda>r. value_of (Points r)) (filter (\<lambda>r. Variable r = variable) df)))"

section \<open>Properties\<close>

subsection \<open>Evaluation of the primitives\<close>

lemma Fin_minus [simp]: "Fin x - Fin y = Fin (x - y)"
  by (simp add: minus_npfloat_def)

lemma Fin_divide: "y \<noteq> 0 \<Longrightarrow> Fin x / Fin y = Fin (x / y)"
  by simp

lemma np_log_pos [simp]: "0 < x \<Longrightarrow> np_log x = Fin (ln x)"
  by (simp add: np_log_def)

lemma bind_Inr [simp]: "bind (Inr x) f = f x"
  by (simp add: bind_def)

lemma bind_Inl [simp]: "bind (Inl e) f = Inl e"
  by (simp add: bind_def)

lemma getitem_Some [simp]: "map_of d k = Some v \<Longrightarrow> getitem d k = Inr v"
  by (simp add: getitem_def)

lemma as_number_Num [simp]: "as_number (Num x) = Inr x"
  by (simp add: as_number_def)

lemma true_divide_finite:
  "to_np c = Fin i \<Longrightarrow> n \<noteq> 0 \<Longrightarrow> true_divide c n = Inr (Fin (i / real n))"
  by (cases c) auto

subsection \<open>Scaling by points to double the odds\<close>

text \<open>
  C5. With the method \<^verbatim>\<open>"pdo_odds"\<close>, at least one binning table, a positive \<^verbatim>\<open>odds\<close>
  and finite raw points and intercept, every raw point \<open>p\<close> is mapped to
  \<open>- (sense * p + intercept / n) * factor + offset / n\<close>, where \<open>factor = pdo / ln 2\<close>,
  \<open>offset = scorecard_points - factor * ln odds\<close> and \<open>sense\<close> is \<open>-1\<close> for a reversed
  scorecard and \<open>1\<close> otherwise.
\<close>

theorem pdo_odds_points:
  assumes "binning_tables \<noteq> []"
    and "map_of method_data ''pdo'' = Some (Num pdo)"
    and "map_of method_data ''odds'' = Some (Num odds)"
    and "map_of method_data ''scorecard_points'' = Some (Num scorecard_points)"
    and "0 < odds"
    and "to_np intercept = Fin i"
  shows "compute_scorecard_points (map Fin ps) binning_tables ''pdo_odds'' method_data
           intercept reverse
         = Inr (map (\<lambda>p.
             let n = real (length binning_tables);
                 sense = (if reverse then - 1 else 1);
                 factor = pdo / ln 2;
                 offset = scorecard_points - factor * ln odds
             in Fin (- (sense * p + i / n) * factor + offset / n)) ps)"
  using assms
  by (simp add: compute_scorecard_points_def Let_def true_divide_finite)

theorem pdo_odds_points_witness:
  "compute_scorecard_points (map Fin [0, 3]) [[\<lparr>Variable = ''x'', Points = Fin 0\<rparr>]] ''pdo_odds''
     [(''pdo'', Num 20), (''odds'', Num 1), (''scorecard_points'', Num 600)] (PyNumber 2) False
   = Inr [Fin (- 2 * (20 / ln 2) + 600), Fin (- 5 * (20 / ln 2) + 600)]"
  using pdo_odds_points [of "[[\<lparr>Variable = ''x'', Points = Fin 0\<rparr>]]"
      "[(''pdo'', Num 20), (''odds'', Num 1), (''scorecard_points'', Num 600)]"
      20 1 600 "PyNumber 2" 2 "[0, 3]" False]
  by simp

subsection \<open>The stages of the pipeline\<close>

lemma set_points_map [simp]:
  "set_points df (map g df) = Inr (map (\<lambda>r. r\<lparr>Points := g r\<rparr>) df)"
  by (simp add: set_points_def zip_map2 zip_same_conv_map)

text \<open>
  C3. The claim is that rounding with the scaling method \<^verbatim>\<open>"pdo_odds"\<close> or \<^verbatim>\<open>None\<close>
  rounds every point to the nearest integer and never raises. With \<^verbatim>\<open>None\<close> the code
  binds no \<^verbatim>\<open>round_points\<close>: a scorecard without scaling and with rounding raises
  \<^verbatim>\<open>UnboundLocalError\<close> when the column is assigned.
\<close>

theorem rounding_without_scaling_raises:
  "Scorecard_fit
     \<lparr>scaling_method = None, scaling_method_params = [], intercept_based = False,
      reverse_scorecard = False, rounding = True\<rparr>
     [[\<lparr>Variable = ''x'', Points = Fin (3 / 2)\<rparr>]] (PyNumber 0) mip_infeasible
   = Inl UnboundLocalError"
  by (simp add: Scorecard_fit_def apply_score_points_def apply_rounding_def)

text \<open>
  C4. With rounding and the scaling method \<^verbatim>\<open>"min_max"\<close>, when the optimizer returns a
  status other than \<^verbatim>\<open>OPTIMAL\<close> and \<^verbatim>\<open>FEASIBLE\<close>, the fit does not fail: every point of
  the scaled scorecard is rounded to the nearest integer, and the intercept is the one of
  the stage before.
\<close>

theorem mip_failure_rounds_to_nearest:
  assumes "rounding self"
    and "scaling_method self = Some ''min_max''"
    and "apply_score_points self binning_tables intercept = Inr (df, intercept')"
    and "round_mip df = Inr (status, round_points)"
    and "status \<notin> {''OPTIMAL'', ''FEASIBLE''}"
  shows "Scorecard_fit self binning_tables intercept round_mip
         = Inr (map (\<lambda>r. r\<lparr>Points := np_rint (Points r)\<rparr>) df, intercept')"
  using assms by (simp add: Scorecard_fit_def apply_rounding_def)

lemma apply_score_points_example:
  "apply_score_points
     \<lparr>scaling_method = Some ''min_max'',
      scaling_method_params = [(''min'', Num 0), (''max'', Num 10)],
      intercept_based = False, reverse_scorecard = False, rounding = True\<rparr>
     [[\<lparr>Variable = ''x'', Points = Fin 0\<rparr>, \<lparr>Variable = ''x'', Points = Fin (1 / 4)\<rparr>,
       \<lparr>Variable = ''x'', Points = Fin 1\<rparr>]] (PyNumber 0)
   = Inr ([\<lparr>Variable = ''x'', Points = Fin 10\<rparr>, \<lparr>Variable = ''x'', Points = Fin (15 / 2)\<rparr>,
       \<lparr>Variable = ''x'', Points = Fin 0\<rparr>], Fin 0)"
  by (simp add: apply_score_points_def compute_scorecard_points_def np_sum_def set_points_def)

theorem mip_failure_rounds_to_nearest_witness:
  "Scorecard_fit
     \<lparr>scaling_method = Some ''min_max'',
      scaling_method_params = [(''min'', Num 0), (''max'', Num 10)],
      intercept_based = False, reverse_scorecard = False, rounding = True\<rparr>
     [[\<lparr>Variable = ''x'', Points = Fin 0\<rparr>, \<lparr>Variable = ''x'', Points = Fin (1 / 4)\<rparr>,
       \<lparr>Variable = ''x'', Points = Fin 1\<rparr>]] (PyNumber 0) mip_infeasible
   = Inr ([\<lparr>Variable = ''x'', Points = Fin 10\<rparr>, \<lparr>Variable = ''x'', Points = Fin 8\<rparr>,
       \<lparr>Variable = ''x'', Points = Fin 0\<rparr>], Fin 0)"
  using mip_failure_rounds_to_nearest
    [of "\<lparr>scaling_method = Some ''min_max'',
      scaling_method_params = [(''min'', Num 0), (''max'', Num 10)],
      intercept_based = False, reverse_scorecard = False, rounding = True\<rparr>"
     "[[\<lparr>Variable = ''x'', Points = Fin 0\<rparr>, \<lparr>Variable = ''x'', Points = Fin (1 / 4)\<rparr>,
       \<lparr>Variable = ''x'', Points = Fin 1\<rparr>]]" "PyNumber 0"
     "[\<lparr>Variable = ''x'', Points = Fin 10\<rparr>, \<lparr>Variable = ''x'', Points = Fin (15 / 2)\<rparr>,
       \<lparr>Variable = ''x'', Points = Fin 0\<rparr>]" "Fin 0" mip_infeasible "''INFEASIBLE''" "[]"]
  by (simp add: apply_score_points_example mip_infeasible_def rint_def)




subsection \<open>Scaling to a range: finite tables\<close>

lemma foldl_np_minimum_Fin: "foldl np_minimum (Fin x) (map Fin xs) = Fin (fold min xs x)"
  by (induction xs arbitrary: x) (simp_all add: min.commute)

lemma foldl_np_maximum_Fin: "foldl np_maximum (Fin x) (map Fin xs) = Fin (fold max xs x)"
  by (induction xs arbitrary: x) (simp_all add: max.commute)

lemma np_min_Fin: "xs \<noteq> [] \<Longrightarrow> np_min (map Fin xs) = Inr (Fin (Min (set xs)))"
  by (cases xs) (simp_all add: foldl_np_minimum_Fin Min.set_eq_fold [symmetric])

lemma np_max_Fin: "xs \<noteq> [] \<Longrightarrow> np_max (map Fin xs) = Inr (Fin (Max (set xs)))"
  by (cases xs) (simp_all add: foldl_np_maximum_Fin Max.set_eq_fold [symmetric])

lemma foldl_plus_Fin: "foldl (+) (Fin a) (map Fin xs) = Fin (a + sum_list xs)"
  by (induction xs arbitrary: a) (simp_all add: add.assoc)

lemma np_sum_Fin: "np_sum (map Fin xs) = Fin (sum_list xs)"
  by (simp add: np_sum_def foldl_plus_Fin)

lemma isfinite_value_of: "isfinite x \<Longrightarrow> Fin (value_of x) = x"
  by (cases x) simp_all

lemma finite_table_Points:
  "finite_table bt \<Longrightarrow> map Points bt = map Fin (map (\<lambda>r. value_of (Points r)) bt)"
  by (simp add: finite_table_def list_all_iff isfinite_value_of)

lemma np_min_finite_table: "finite_table bt \<Longrightarrow> np_min (map Points bt) = Inr (Fin (table_min bt))"
  using np_min_Fin [of "map (\<lambda>r. value_of (Points r)) bt"]
  by (simp add: finite_table_Points table_min_def) (simp add: finite_table_def)

lemma np_max_finite_table: "finite_table bt \<Longrightarrow> np_max (map Points bt) = Inr (Fin (table_max bt))"
  using np_max_Fin [of "map (\<lambda>r. value_of (Points r)) bt"]
  by (simp add: finite_table_Points table_max_def) (simp add: finite_table_def)

lemma comprehension_Inr:
  "(\<And>x. x \<in> set xs \<Longrightarrow> f x = Inr (g x)) \<Longrightarrow> comprehension f xs = Inr (map g xs)"
  by (induction xs) simp_all

lemma table_min_le_max: "finite_table bt \<Longrightarrow> table_min bt \<le> table_max bt"
  by (simp add: table_min_def table_max_def finite_table_def)

lemma smin_le_smax: "list_all finite_table bts \<Longrightarrow> smin i bts \<le> smax i bts"
  by (induction bts) (auto simp: smin_def smax_def dest: table_min_le_max)

lemma min_max_points:
  assumes "list_all finite_table binning_tables"
    and "map_of method_data ''min'' = Some (Num a)"
    and "map_of method_data ''max'' = Some (Num b)"
    and "to_np intercept = Fin i"
    and "smin i binning_tables \<noteq> smax i binning_tables"
  shows "compute_scorecard_points (map Fin ps) binning_tables ''min_max'' method_data
           intercept reverse
         = Inr (map (\<lambda>p.
             let n = real (length binning_tables);
                 slope = (if reverse then - 1 else 1) * (a - b)
                           / (smax i binning_tables - smin i binning_tables);
                 shift = (if reverse then a else b) - slope * smin i binning_tables
             in Fin ((shift + slope * i) / n + slope * p)) ps)"
proof -
  have mins: "comprehension (\<lambda>bt. np_min (map Points bt)) binning_tables
              = Inr (map (\<lambda>bt. Fin (table_min bt)) binning_tables)"
    using assms(1) by (intro comprehension_Inr) (simp add: list_all_iff np_min_finite_table)
  have maxs: "comprehension (\<lambda>bt. np_max (map Points bt)) binning_tables
              = Inr (map (\<lambda>bt. Fin (table_max bt)) binning_tables)"
    using assms(1) by (intro comprehension_Inr) (simp add: list_all_iff np_max_finite_table)
  have sums: "np_sum (map (\<lambda>bt. Fin (table_min bt)) binning_tables)
                = Fin (sum_list (map table_min binning_tables))"
      "np_sum (map (\<lambda>bt. Fin (table_max bt)) binning_tables)
                = Fin (sum_list (map table_max binning_tables))"
    using np_sum_Fin [of "map table_min binning_tables"]
      np_sum_Fin [of "map table_max binning_tables"] by (simp_all add: comp_def)
  have n: "binning_tables \<noteq> []"
    using assms(5) by (auto simp: smin_def smax_def)
  have d: "sum_list (map table_max binning_tables) \<noteq> sum_list (map table_min binning_tables)"
    using assms(5) by (auto simp: smin_def smax_def)
  show ?thesis
    using assms(2-4) n d
    by (simp add: compute_scorecard_points_def mins maxs sums Let_def smin_def smax_def)
qed

subsection \<open>The scaling is a strictly monotone affine map\<close>




subsection \<open>Scaling to a range: the degenerate range\<close>

lemma divide_zero_not_finite: "\<not> isfinite (Fin x / Fin 0)"
  by simp

lemma times_not_finite: "\<not> isfinite x \<Longrightarrow> \<not> isfinite (x * y)"
  by (cases x; cases y) simp_all

lemma plus_not_finite: "\<not> isfinite y \<Longrightarrow> \<not> isfinite (x + y)"
  by (cases x; cases y) simp_all

text \<open>
  C2, as claimed: when \<open>smax = smin\<close> the scaling fails with an error instead of returning
  infinite or undefined points. It does not: with two variables of one bin each, raw points
  1 and 3, intercept 0.5 and the range from 0 to 100, the scaling returns two \<^verbatim>\<open>nan\<close>.
\<close>

theorem degenerate_range_counterexample:
  "compute_scorecard_points [Fin 1, Fin 3]
     [[\<lparr>Variable = ''x'', Points = Fin 1\<rparr>], [\<lparr>Variable = ''y'', Points = Fin 3\<rparr>]]
     ''min_max'' [(''min'', Num 0), (''max'', Num 100)] (NpFloat (Fin (1 / 2))) False
   = Inr [NaN, NaN]"
  by (simp add: compute_scorecard_points_def np_sum_def minus_npfloat_def Let_def)

text \<open>
  C2, amended. For finite tables and a finite intercept, when \<open>smax = smin\<close> the scaling
  raises nothing: the division by the zero range is a division of numpy floats, and the
  scaling returns a column of the length of its input in which no point is finite.
\<close>

theorem degenerate_range_not_finite:
  assumes "list_all finite_table binning_tables"
    and "map_of method_data ''min'' = Some (Num a)"
    and "map_of method_data ''max'' = Some (Num b)"
    and "to_np intercept = Fin i"
    and "smin i binning_tables = smax i binning_tables"
  shows "\<exists>new_points.
           compute_scorecard_points points binning_tables ''min_max'' method_data
             intercept reverse = Inr new_points
           \<and> length new_points = length points
           \<and> list_all (\<lambda>q. \<not> isfinite q) new_points"
proof -
  have mins: "comprehension (\<lambda>bt. np_min (map Points bt)) binning_tables
              = Inr (map (\<lambda>bt. Fin (table_min bt)) binning_tables)"
    using assms(1) by (intro comprehension_Inr) (simp add: list_all_iff np_min_finite_table)
  have maxs: "comprehension (\<lambda>bt. np_max (map Points bt)) binning_tables
              = Inr (map (\<lambda>bt. Fin (table_max bt)) binning_tables)"
    using assms(1) by (intro comprehension_Inr) (simp add: list_all_iff np_max_finite_table)
  have sums: "np_sum (map (\<lambda>bt. Fin (table_min bt)) binning_tables)
                = Fin (sum_list (map table_min binning_tables))"
      "np_sum (map (\<lambda>bt. Fin (table_max bt)) binning_tables)
                = Fin (sum_list (map table_max binning_tables))"
    using np_sum_Fin [of "map table_min binning_tables"]
      np_sum_Fin [of "map table_max binning_tables"] by (simp_all add: comp_def)
  have d: "sum_list (map table_max binning_tables) = sum_list (map table_min binning_tables)"
    using assms(5) by (simp add: smin_def smax_def)
  define slope where
    "slope = Fin ((if reverse then - 1 else 1) * (a - b)) / Fin 0"
  define base_points where
    "base_points = (if reverse then Fin a - slope * Fin (smin i binning_tables)
                    else Fin b - slope * Fin (smin i binning_tables)) + slope * Fin i"
  have eq: "compute_scorecard_points points binning_tables ''min_max'' method_data
          intercept reverse
        = Inr (map (\<lambda>p. base_points / Fin (real (length binning_tables)) + slope * p) points)"
    using assms(2-4) d
    by (simp add: compute_scorecard_points_def mins maxs sums Let_def smin_def
        slope_def base_points_def del: divide_npfloat.simps)
  have "\<not> isfinite slope"
    unfolding slope_def by (rule divide_zero_not_finite)
  then have "\<not> isfinite (base_points / Fin (real (length binning_tables)) + slope * p)" for p
    by (intro plus_not_finite times_not_finite)
  then show ?thesis
    unfolding eq by (simp add: list_all_iff)
qed


theorem degenerate_range_not_finite_witness:
  "\<exists>new_points.
     compute_scorecard_points [Fin 1, Fin 3]
       [[\<lparr>Variable = ''x'', Points = Fin 1\<rparr>], [\<lparr>Variable = ''y'', Points = Fin 3\<rparr>]]
       ''min_max'' [(''min'', Num 0), (''max'', Num 100)] (NpFloat (Fin (1 / 2))) False
     = Inr new_points
     \<and> length new_points = length [Fin 1, Fin 3]
     \<and> list_all (\<lambda>q. \<not> isfinite q) new_points"
  using degenerate_range_not_finite
    [where binning_tables =
        "[[\<lparr>Variable = ''x'', Points = Fin 1\<rparr>], [\<lparr>Variable = ''y'', Points = Fin 3\<rparr>]]"
       and method_data = "[(''min'', Num 0), (''max'', Num 100)]" and a = 0 and b = 100
       and intercept = "NpFloat (Fin (1 / 2))" and i = "1 / 2" and points = "[Fin 1, Fin 3]"
       and reverse = False]
  by (simp add: finite_table_def smin_def smax_def table_min_def table_max_def)

subsection \<open>Scaling to a range: the range of the total score\<close>

lemma Min_affine:
  fixes S :: "real set"
  assumes "finite S" and "S \<noteq> {}"
  shows "Min ((\<lambda>p. c + k * p) ` S) = (if 0 \<le> k then c + k * Min S else c + k * Max S)"
proof (cases "0 \<le> k")
  case True
  have "Min ((\<lambda>p. c + k * p) ` S) = c + k * Min S"
  proof (rule Min_eqI)
    show "finite ((\<lambda>p. c + k * p) ` S)" using assms by simp
    show "c + k * Min S \<le> y" if "y \<in> (\<lambda>p. c + k * p) ` S" for y
    proof -
      from that obtain p where p: "p \<in> S" "y = c + k * p" by auto
      have "Min S \<le> p" using assms p by simp
      then have "k * Min S \<le> k * p" using True by (rule mult_left_mono)
      then show ?thesis using p by simp
    qed
    show "c + k * Min S \<in> (\<lambda>p. c + k * p) ` S"
      by (rule image_eqI [where x = "Min S"]) (simp_all add: assms)
  qed
  with True show ?thesis by simp
next
  case False
  have "Min ((\<lambda>p. c + k * p) ` S) = c + k * Max S"
  proof (rule Min_eqI)
    show "finite ((\<lambda>p. c + k * p) ` S)" using assms by simp
    show "c + k * Max S \<le> y" if "y \<in> (\<lambda>p. c + k * p) ` S" for y
      using that assms False by (auto intro: mult_left_mono_neg)
    show "c + k * Max S \<in> (\<lambda>p. c + k * p) ` S"
      by (rule image_eqI [where x = "Max S"]) (simp_all add: assms)
  qed
  with False show ?thesis by simp
qed

lemma Max_affine:
  fixes S :: "real set"
  assumes "finite S" and "S \<noteq> {}"
  shows "Max ((\<lambda>p. c + k * p) ` S) = (if 0 \<le> k then c + k * Max S else c + k * Min S)"
proof (cases "0 \<le> k")
  case True
  have "Max ((\<lambda>p. c + k * p) ` S) = c + k * Max S"
  proof (rule Max_eqI)
    show "finite ((\<lambda>p. c + k * p) ` S)" using assms by simp
    show "y \<le> c + k * Max S" if "y \<in> (\<lambda>p. c + k * p) ` S" for y
    proof -
      from that obtain p where p: "p \<in> S" "y = c + k * p" by auto
      have "p \<le> Max S" using assms p by simp
      then have "k * p \<le> k * Max S" using True by (rule mult_left_mono)
      then show ?thesis using p by simp
    qed
    show "c + k * Max S \<in> (\<lambda>p. c + k * p) ` S"
      by (rule image_eqI [where x = "Max S"]) (simp_all add: assms)
  qed
  with True show ?thesis by simp
next
  case False
  have "Max ((\<lambda>p. c + k * p) ` S) = c + k * Min S"
  proof (rule Max_eqI)
    show "finite ((\<lambda>p. c + k * p) ` S)" using assms by simp
    show "y \<le> c + k * Min S" if "y \<in> (\<lambda>p. c + k * p) ` S" for y
      using that assms False by (auto intro: mult_left_mono_neg)
    show "c + k * Min S \<in> (\<lambda>p. c + k * p) ` S"
      by (rule image_eqI [where x = "Min S"]) (simp_all add: assms)
  qed
  with False show ?thesis by simp
qed

lemma sum_list_affine:
  "sum_list (map (\<lambda>x. c + k * f x) xs) = real (length xs) * c + k * sum_list (map f xs)"
  for c k :: real
  by (induction xs) (simp_all add: algebra_simps)

lemma np_min_affine:
  "finite_table bt \<Longrightarrow>
   np_min (map (\<lambda>r. Fin (c + k * value_of (Points r))) bt)
   = Inr (Fin (c + k * (if 0 \<le> k then table_min bt else table_max bt)))"
  using np_min_Fin [of "map (\<lambda>r. c + k * value_of (Points r)) bt"]
    Min_affine [of "set (map (\<lambda>r. value_of (Points r)) bt)" c k]
  by (simp add: finite_table_def table_min_def table_max_def comp_def image_image)

lemma np_max_affine:
  "finite_table bt \<Longrightarrow>
   np_max (map (\<lambda>r. Fin (c + k * value_of (Points r))) bt)
   = Inr (Fin (c + k * (if 0 \<le> k then table_max bt else table_min bt)))"
  using np_max_Fin [of "map (\<lambda>r. c + k * value_of (Points r)) bt"]
    Max_affine [of "set (map (\<lambda>r. value_of (Points r)) bt)" c k]
  by (simp add: finite_table_def table_min_def table_max_def comp_def image_image)


lemma np_sum_Fin_map: "np_sum (map (\<lambda>x. Fin (g x)) xs) = Fin (sum_list (map g xs))"
  using np_sum_Fin [of "map g xs"] by (simp add: comp_def)

lemma min_max_totals:
  assumes tables: "list_all finite_table binning_tables"
    and lo: "map_of method_data ''min'' = Some (Num a)"
    and hi: "map_of method_data ''max'' = Some (Num b)"
    and icpt: "to_np intercept = Fin i"
    and range: "smin i binning_tables \<noteq> smax i binning_tables"
    and k: "k = (if reverse then - 1 else 1) * (a - b)
                  / (smax i binning_tables - smin i binning_tables)"
    and base: "base = (if reverse then a else b) - k * smin i binning_tables + k * i"
  shows "min_total_score binning_tables ''min_max'' method_data intercept reverse
         = Inr (Fin (base + k * sum_list (map (\<lambda>bt. if 0 \<le> k then table_min bt
                                                   else table_max bt) binning_tables)))"
    and "max_total_score binning_tables ''min_max'' method_data intercept reverse
         = Inr (Fin (base + k * sum_list (map (\<lambda>bt. if 0 \<le> k then table_max bt
                                                   else table_min bt) binning_tables)))"
proof -
  define n where "n = real (length binning_tables)"
  have n: "n \<noteq> 0"
    using range by (auto simp: n_def smin_def smax_def)
  have scaled: "compute_scorecard_points (map Points bt) binning_tables ''min_max''
                  method_data intercept reverse
                = Inr (map (\<lambda>p. Fin (base / n + k * p)) (map (\<lambda>r. value_of (Points r)) bt))"
    if "finite_table bt" for bt
    using min_max_points [OF tables lo hi icpt range,
        of "map (\<lambda>r. value_of (Points r)) bt" reverse]
    by (simp only: finite_table_Points [OF that] Let_def k base n_def)
  have mins: "comprehension
          (\<lambda>bt. bind (compute_scorecard_points (map Points bt) binning_tables ''min_max''
                        method_data intercept reverse) np_min) binning_tables
        = Inr (map (\<lambda>bt. Fin (base / n + k * (if 0 \<le> k then table_min bt else table_max bt)))
                 binning_tables)"
    using tables
    by (intro comprehension_Inr) (simp add: list_all_iff scaled np_min_affine comp_def)
  have maxs: "comprehension
          (\<lambda>bt. bind (compute_scorecard_points (map Points bt) binning_tables ''min_max''
                        method_data intercept reverse) np_max) binning_tables
        = Inr (map (\<lambda>bt. Fin (base / n + k * (if 0 \<le> k then table_max bt else table_min bt)))
                 binning_tables)"
    using tables
    by (intro comprehension_Inr) (simp add: list_all_iff scaled np_max_affine comp_def)
  show "min_total_score binning_tables ''min_max'' method_data intercept reverse
         = Inr (Fin (base + k * sum_list (map (\<lambda>bt. if 0 \<le> k then table_min bt
                                                   else table_max bt) binning_tables)))"
    using n by (simp add: min_total_score_def mins np_sum_Fin_map sum_list_affine n_def)
  show "max_total_score binning_tables ''min_max'' method_data intercept reverse
         = Inr (Fin (base + k * sum_list (map (\<lambda>bt. if 0 \<le> k then table_max bt
                                                   else table_min bt) binning_tables)))"
    using n by (simp add: max_total_score_def maxs np_sum_Fin_map sum_list_affine n_def)
qed

text \<open>
  C1, as claimed: for a reversed scorecard the least total score is the configured
  \<^verbatim>\<open>max\<close> and the greatest is the configured \<^verbatim>\<open>min\<close>. It is not: for one variable with
  the raw points 0 and 1 and the range from 0 to 10, the reversed scaling gives the points 0
  and 10, so the least total is 0, the configured \<^verbatim>\<open>min\<close>, and the greatest is 10.
\<close>

theorem reversed_min_total_score_counterexample:
  "min_total_score
     [[\<lparr>Variable = ''x'', Points = Fin 0\<rparr>, \<lparr>Variable = ''x'', Points = Fin 1\<rparr>]]
     ''min_max'' [(''min'', Num 0), (''max'', Num 10)] (PyNumber 0) True = Inr (Fin 0)
   \<and> min_total_score
     [[\<lparr>Variable = ''x'', Points = Fin 0\<rparr>, \<lparr>Variable = ''x'', Points = Fin 1\<rparr>]]
     ''min_max'' [(''min'', Num 0), (''max'', Num 10)] (PyNumber 0) True \<noteq> Inr (Fin 10)
   \<and> max_total_score
     [[\<lparr>Variable = ''x'', Points = Fin 0\<rparr>, \<lparr>Variable = ''x'', Points = Fin 1\<rparr>]]
     ''min_max'' [(''min'', Num 0), (''max'', Num 10)] (PyNumber 0) True = Inr (Fin 10)
   \<and> compute_scorecard_points [Fin 0, Fin 1]
     [[\<lparr>Variable = ''x'', Points = Fin 0\<rparr>, \<lparr>Variable = ''x'', Points = Fin 1\<rparr>]]
     ''min_max'' [(''min'', Num 0), (''max'', Num 10)] (PyNumber 0) True = Inr [Fin 0, Fin 10]"
  by (simp add: min_total_score_def max_total_score_def compute_scorecard_points_def np_sum_def)

text \<open>
  C1, amended. For the scaling to a range with \<open>min \<le> max\<close>, finite tables and intercept and
  \<open>smin \<noteq> smax\<close>, the least total score is the configured \<^verbatim>\<open>min\<close> and the greatest is the
  configured \<^verbatim>\<open>max\<close>, whether the scorecard is reversed or not: reversal changes which raw
  score reaches which end of the range, not the ends.
\<close>

theorem min_max_total_score_bounds:
  assumes tables: "list_all finite_table binning_tables"
    and lo: "map_of method_data ''min'' = Some (Num a)"
    and hi: "map_of method_data ''max'' = Some (Num b)"
    and le: "a \<le> b"
    and icpt: "to_np intercept = Fin i"
    and range: "smin i binning_tables \<noteq> smax i binning_tables"
  shows "min_total_score binning_tables ''min_max'' method_data intercept reverse = Inr (Fin a)
       \<and> max_total_score binning_tables ''min_max'' method_data intercept reverse = Inr (Fin b)"
proof -
  define D where "D = smax i binning_tables - smin i binning_tables"
  define k where "k = (if reverse then - 1 else 1) * (a - b) / D"
  define base where "base = (if reverse then a else b) - k * smin i binning_tables + k * i"
  have D: "0 < D"
    using smin_le_smax [OF tables, of i] range by (simp add: D_def)
  have kD: "k * D = (if reverse then b - a else a - b)"
    using D by (simp add: k_def)
  have sign: "0 \<le> k \<longleftrightarrow> reverse \<or> a = b"
    using D le by (auto simp: k_def zero_le_divide_iff)
  have lo_sum: "sum_list (map table_min binning_tables) = smin i binning_tables - i"
    and hi_sum: "sum_list (map table_max binning_tables) = smin i binning_tables + D - i"
    by (simp_all add: smin_def smax_def D_def)
  note totals = min_max_totals [OF tables lo hi icpt range, of k reverse base,
      unfolded D_def [symmetric], OF k_def base_def]
  show ?thesis
  proof (cases "0 \<le> k")
    case True
    then have "(\<lambda>bt. if 0 \<le> k then table_min bt else table_max bt) = table_min"
      "(\<lambda>bt. if 0 \<le> k then table_max bt else table_min bt) = table_max"
      by auto
    then show ?thesis
      using totals True sign kD le
      by (auto simp: lo_sum hi_sum base_def algebra_simps)
  next
    case False
    then have "(\<lambda>bt. if 0 \<le> k then table_min bt else table_max bt) = table_max"
      "(\<lambda>bt. if 0 \<le> k then table_max bt else table_min bt) = table_min"
      by auto
    then show ?thesis
      using totals False sign kD le
      by (auto simp: lo_sum hi_sum base_def algebra_simps)
  qed
qed

theorem min_max_total_score_bounds_witness:
  "min_total_score
     [[\<lparr>Variable = ''x'', Points = Fin 0\<rparr>, \<lparr>Variable = ''x'', Points = Fin 1\<rparr>],
      [\<lparr>Variable = ''y'', Points = Fin 2\<rparr>, \<lparr>Variable = ''y'', Points = Fin (- 1)\<rparr>]]
     ''min_max'' [(''min'', Num 300), (''max'', Num 850)] (PyNumber 3) True = Inr (Fin 300)
   \<and> max_total_score
     [[\<lparr>Variable = ''x'', Points = Fin 0\<rparr>, \<lparr>Variable = ''x'', Points = Fin 1\<rparr>],
      [\<lparr>Variable = ''y'', Points = Fin 2\<rparr>, \<lparr>Variable = ''y'', Points = Fin (- 1)\<rparr>]]
     ''min_max'' [(''min'', Num 300), (''max'', Num 850)] (PyNumber 3) True = Inr (Fin 850)"
  using min_max_total_score_bounds
    [where binning_tables =
       "[[\<lparr>Variable = ''x'', Points = Fin 0\<rparr>, \<lparr>Variable = ''x'', Points = Fin 1\<rparr>],
         [\<lparr>Variable = ''y'', Points = Fin 2\<rparr>, \<lparr>Variable = ''y'', Points = Fin (- 1)\<rparr>]]"
       and method_data = "[(''min'', Num 300), (''max'', Num 850)]" and a = 300 and b = 850
       and intercept = "PyNumber 3" and i = 3 and reverse = True]
  by (simp add: finite_table_def smin_def smax_def table_min_def table_max_def)

subsection \<open>When the validation raises\<close>








subsection \<open>The intercept-based form of a finite scorecard\<close>

lemma set_unique [simp]: "set (unique xs) = set xs"
  by (induction xs rule: unique.induct) auto

lemma distinct_unique [simp]: "distinct (unique xs)"
  by (induction xs rule: unique.induct) auto

lemma boolean_index_map:
  "boolean_index (map P df) (map g df) = map g (filter P df)"
  by (induction df) (simp_all add: boolean_index_def)

lemma mask_assign_map:
  "mask_assign (map P df) (map g df) (map h (filter P df))
   = map (\<lambda>r. if P r then h r else g r) df"
  by (induction df) simp_all

lemma Min_shift:
  fixes S :: "real set"
  assumes "finite S" and "S \<noteq> {}"
  shows "Min ((\<lambda>p. p - m) ` S) = Min S - m"
  using Min_affine [OF assms, of "- m" 1] by simp

lemma np_min_variable:
  assumes "list_all (\<lambda>r. isfinite (Points r)) df" and "v \<in> Variable ` set df"
  shows "np_min (map Points (filter (\<lambda>r. Variable r = v) df)) = Inr (Fin (variable_min df v))"
proof -
  have ft: "finite_table (filter (\<lambda>r. Variable r = v) df)"
    using assms by (auto simp: finite_table_def list_all_iff filter_empty_conv)
  then show ?thesis
    by (simp add: np_min_finite_table table_min_def variable_min_def)
qed

lemma intercept_based_loop_finite:
  assumes "list_all (\<lambda>r. isfinite (Points r)) df" and "set vs \<subseteq> Variable ` set df"
  shows "intercept_based_loop df vs (map g df, Fin c)
         = Inr (map (\<lambda>r. if Variable r \<in> set vs
                          then Fin (value_of (Points r) - variable_min df (Variable r))
                          else g r) df,
                Fin (c + sum_list (map (variable_min df) vs)))"
  using assms(2)
proof (induction vs arbitrary: g c)
  case Nil
  then show ?case by simp
next
  case (Cons v vs)
  define m where "m = variable_min df v"
  define g' where "g' = (\<lambda>r. if Variable r = v then Points r - Fin m else g r)"
  have v: "v \<in> Variable ` set df" and vs: "set vs \<subseteq> Variable ` set df"
    using Cons.prems by auto
  have step: "intercept_based_loop df (v # vs) (map g df, Fin c)
              = intercept_based_loop df vs (map g' df, Fin (c + m))"
    using np_min_variable [OF assms(1) v]
    by (simp add: boolean_index_map mask_assign_map m_def g'_def Let_def cong: if_cong)
  have "map (\<lambda>r. if Variable r \<in> set vs
                   then Fin (value_of (Points r) - variable_min df (Variable r))
                   else g' r) df
        = map (\<lambda>r. if Variable r \<in> set (v # vs)
                   then Fin (value_of (Points r) - variable_min df (Variable r))
                   else g r) df"
  proof (rule map_cong [OF refl])
    fix r assume "r \<in> set df"
    then have "Points r = Fin (value_of (Points r))"
      using assms(1) by (simp add: list_all_iff isfinite_value_of)
    then have "Points r - Fin m = Fin (value_of (Points r) - m)"
      by (metis Fin_minus)
    then show "(if Variable r \<in> set vs
                then Fin (value_of (Points r) - variable_min df (Variable r)) else g' r)
             = (if Variable r \<in> set (v # vs)
                then Fin (value_of (Points r) - variable_min df (Variable r)) else g r)"
      by (simp add: g'_def m_def)
  qed
  then show ?case
    unfolding step Cons.IH [OF vs] by (simp add: m_def add.assoc)
qed

lemma compute_intercept_based_finite:
  assumes "list_all (\<lambda>r. isfinite (Points r)) df"
  shows "compute_intercept_based df
         = Inr (map (\<lambda>r. Fin (value_of (Points r) - variable_min df (Variable r))) df,
                Fin (sum_list (map (variable_min df) (unique (map Variable df)))))"
proof -
  have "replicate (length df) (Fin 0) = map (\<lambda>r. Fin 0) df"
    by (simp add: map_replicate_const)
  moreover have "map (\<lambda>r. if Variable r \<in> Variable ` set df
                    then Fin (value_of (Points r) - variable_min df (Variable r))
                    else Fin 0) df
      = map (\<lambda>r. Fin (value_of (Points r) - variable_min df (Variable r))) df"
    by (rule map_cong) auto
  ultimately show ?thesis
    using intercept_based_loop_finite [OF assms, of "unique (map Variable df)" "\<lambda>r. Fin 0" 0]
    by (simp add: compute_intercept_based_def)
qed

lemma variable_min_shift:
  assumes "v \<in> Variable ` set df"
  shows "Min (set (map (\<lambda>r. value_of (Points r) - m) (filter (\<lambda>r. Variable r = v) df)))
         = variable_min df v - m"
proof -
  let ?S = "set (map (\<lambda>r. value_of (Points r)) (filter (\<lambda>r. Variable r = v) df))"
  have "?S \<noteq> {}"
    using assms by (auto simp: filter_empty_conv)
  from Min_shift [OF _ this, of m] have "Min ((\<lambda>p. p - m) ` ?S) = Min ?S - m"
    by simp
  moreover have "(\<lambda>p. p - m) ` ?S
      = set (map (\<lambda>r. value_of (Points r) - m) (filter (\<lambda>r. Variable r = v) df))"
    by (simp add: image_image)
  ultimately show ?thesis
    by (simp add: variable_min_def)
qed




lemma compute_intercept_based_zero_min:
  assumes fin: "list_all (\<lambda>r. isfinite (Points r)) df"
    and zero: "\<forall>v\<in>set (map Variable df). variable_min df v = 0"
  shows "compute_intercept_based df = Inr (map Points df, Fin 0)"
proof -
  have "map (\<lambda>r. Fin (value_of (Points r) - variable_min df (Variable r))) df = map Points df"
  proof (rule map_cong [OF refl])
    fix r assume r: "r \<in> set df"
    then have "variable_min df (Variable r) = 0" using zero by simp
    moreover have "Fin (value_of (Points r)) = Points r"
      using fin r by (simp add: list_all_iff isfinite_value_of)
    ultimately show "Fin (value_of (Points r) - variable_min df (Variable r)) = Points r"
      by simp
  qed
  moreover have "map (variable_min df) (unique (map Variable df))
                 = map (\<lambda>v. 0) (unique (map Variable df))"
    using zero by (intro map_cong [OF refl]) auto
  then have "sum_list (map (variable_min df) (unique (map Variable df))) = 0"
    by (simp only: sum_list_0)
  ultimately show ?thesis
    using compute_intercept_based_finite [OF fin] by simp
qed

lemma variable_min_rebalanced:
  assumes "v \<in> Variable ` set df"
  shows "variable_min
           (map (\<lambda>r. r\<lparr>Points := Fin (value_of (Points r) - variable_min df (Variable r))\<rparr>) df) v
         = 0"
proof -
  have "map (\<lambda>r. value_of (Points r))
          (filter (\<lambda>r. Variable r = v)
            (map (\<lambda>r. r\<lparr>Points := Fin (value_of (Points r) - variable_min df (Variable r))\<rparr>) df))
        = map (\<lambda>r. value_of (Points r) - variable_min df v) (filter (\<lambda>r. Variable r = v) df)"
    by (simp add: filter_map comp_def cong: map_cong)
  then show ?thesis
    using variable_min_shift [OF assms, of "variable_min df v"]
    unfolding variable_min_def by simp
qed

text \<open>
  C7. \<^verbatim>\<open>_compute_intercept_based\<close> is idempotent on scorecards with finite points: when
  the least point of every variable is already 0 it returns the points as they are and the
  intercept 0; and for any scorecard, applying it again to the scorecard that carries the
  new points returns the same points and the intercept 0.
\<close>

theorem intercept_based_idempotent:
  assumes fin: "list_all (\<lambda>r. isfinite (Points r)) df"
  shows "((\<forall>v\<in>set (map Variable df). variable_min df v = 0)
            \<longrightarrow> compute_intercept_based df = Inr (map Points df, Fin 0))
       \<and> (\<exists>new_points intercept df'.
             compute_intercept_based df = Inr (new_points, intercept)
             \<and> set_points df new_points = Inr df'
             \<and> compute_intercept_based df' = Inr (new_points, Fin 0))"
proof
  show "(\<forall>v\<in>set (map Variable df). variable_min df v = 0)
            \<longrightarrow> compute_intercept_based df = Inr (map Points df, Fin 0)"
    using compute_intercept_based_zero_min [OF fin] by blast
next
  define f :: "row \<Rightarrow> npfloat" where "f = (\<lambda>r. Fin (value_of (Points r) - variable_min df (Variable r)))"
  define df' where "df' = map (\<lambda>r. r\<lparr>Points := f r\<rparr>) df"
  have once: "compute_intercept_based df
              = Inr (map f df, Fin (sum_list (map (variable_min df) (unique (map Variable df)))))"
    using compute_intercept_based_finite [OF fin] by (simp add: f_def)
  have set: "set_points df (map f df) = Inr df'"
    by (simp add: df'_def)
  have fin': "list_all (\<lambda>r. isfinite (Points r)) df'"
    by (simp add: df'_def f_def list_all_iff)
  have "\<forall>v\<in>set (map Variable df'). variable_min df' v = 0"
    using variable_min_rebalanced [of _ df] by (auto simp: df'_def f_def)
  from compute_intercept_based_zero_min [OF fin' this]
  have twice: "compute_intercept_based df' = Inr (map f df, Fin 0)"
    by (simp add: df'_def comp_def)
  from once set twice
  show "\<exists>new_points intercept df'.
             compute_intercept_based df = Inr (new_points, intercept)
             \<and> set_points df new_points = Inr df'
             \<and> compute_intercept_based df' = Inr (new_points, Fin 0)"
    by blast
qed

theorem intercept_based_idempotent_witness:
  "compute_intercept_based
     [\<lparr>Variable = ''x'', Points = Fin 2\<rparr>, \<lparr>Variable = ''x'', Points = Fin 0\<rparr>,
      \<lparr>Variable = ''y'', Points = Fin 0\<rparr>, \<lparr>Variable = ''y'', Points = Fin 2\<rparr>]
   = Inr ([Fin 2, Fin 0, Fin 0, Fin 2], Fin 0)"
  using intercept_based_idempotent
    [of "[\<lparr>Variable = ''x'', Points = Fin 2\<rparr>, \<lparr>Variable = ''x'', Points = Fin 0\<rparr>,
          \<lparr>Variable = ''y'', Points = Fin 0\<rparr>, \<lparr>Variable = ''y'', Points = Fin 2\<rparr>]",
      THEN conjunct1]
  by (simp add: variable_min_def)

end
